theory Spec2Isabelle
  imports Main "HOL-Library.Multiset"
begin

section \<open>JavaScript values\<close>

text \<open>
  The test host writes one JSON document per line; \<open>ndjson.parse()\<close> hands each decoded
  document to \<open>Runner.onData\<close> as a value of TypeScript type \<open>any\<close>. The program
  inspects these values with JavaScript's dynamic operations only: property reads,
  truthiness tests, \<open>!= null\<close>, \<open>- 1\<close>, \<open>.toString()\<close>, \<open>.map\<close>, \<open>.split\<close>.

  \<open>jsval\<close> is the type of such values: the six kinds of JSON value and \<open>undefined\<close>,
  which no JSON document contains but which every read of a missing property yields.
  An object is the list of its own properties; the first entry for a name is the
  property of that name.

  Numbers are the integers. A fraction, an exponent too large for an exact
  integer, and the minus zero of the number type are outside the model.
\<close>

datatype jsval =
    JUndefined
  | JNull
  | JBool bool
  | JNum int
  | JStr string
  | JArr "jsval list"
  | JObj "(string \<times> jsval) list"

text \<open>The two errors the program can raise: the runtime's \<open>TypeError\<close>, and the
  \<open>new Error(message)\<close> with which the exit handler rejects.\<close>

datatype js_error = TypeError | Error string

text \<open>The result of an arithmetic conversion: an integer or \<open>NaN\<close>.\<close>

datatype jsnum = Num int | NaN

fun nullish :: "jsval \<Rightarrow> bool" where
  "nullish JUndefined = True"
| "nullish JNull = True"
| "nullish _ = False"

text \<open>\<open>ToBoolean\<close>: what \<open>if (v)\<close>, \<open>v && w\<close> and \<open>v || w\<close> test.\<close>

fun truthy :: "jsval \<Rightarrow> bool" where
  "truthy JUndefined = False"
| "truthy JNull = False"
| "truthy (JBool b) = b"
| "truthy (JNum n) = (n \<noteq> 0)"
| "truthy (JStr s) = (s \<noteq> [])"
| "truthy (JArr _) = True"
| "truthy (JObj _) = True"

text \<open>Decimal digits of a natural number, most significant first.\<close>

fun digits :: "nat \<Rightarrow> string" where
  "digits n =
     (if n < 10 then [''0123456789'' ! n]
      else digits (n div 10) @ [''0123456789'' ! (n mod 10)])"

declare digits.simps [simp del]

definition show_int :: "int \<Rightarrow> string" where
  "show_int i = (if i < 0 then CHR ''-'' # digits (nat (- i)) else digits (nat i))"

text \<open>\<open>Array.prototype.join\<close> on strings already converted.\<close>

fun join :: "string \<Rightarrow> string list \<Rightarrow> string" where
  "join sep [] = []"
| "join sep [s] = s"
| "join sep (s # t # ss) = s @ sep @ join sep (t # ss)"

text \<open>
  \<open>ToString\<close>, which the runtime applies to a value used as a property key
  (\<open>this.tests[data.passed]\<close>) and which \<open>.toString()\<close> and a template literal compute
  for the values below. An array joins its elements with commas, \<open>null\<close> and
  \<open>undefined\<close> elements contributing the empty string; a plain object prints as
  \<open>[object Object]\<close>. (An object with an own property named \<open>toString\<close> or
  \<open>valueOf\<close> hides the inherited method, and its conversion raises; such objects
  are outside the model.)
\<close>

fun toString :: "jsval \<Rightarrow> string" where
  "toString JUndefined = ''undefined''"
| "toString JNull = ''null''"
| "toString (JBool b) = (if b then ''true'' else ''false'')"
| "toString (JNum n) = show_int n"
| "toString (JStr s) = s"
| "toString (JArr vs) = join '','' (map (\<lambda>v. if nullish v then [] else toString v) vs)"
| "toString (JObj _) = ''[object Object]''"

text \<open>
  \<open>ToNumber\<close>. The conversion of a string to a number (\<open>StringToNumber\<close> of the
  language standard) belongs to the runtime; it is the parameter \<open>S\<close> of every
  function that can reach it. An array or object is first converted to a string.
\<close>

fun toNumber :: "(string \<Rightarrow> jsnum) \<Rightarrow> jsval \<Rightarrow> jsnum" where
  "toNumber S JUndefined = NaN"
| "toNumber S JNull = Num 0"
| "toNumber S (JBool b) = Num (if b then 1 else 0)"
| "toNumber S (JNum n) = Num n"
| "toNumber S v = S (toString v)"

fun minus :: "jsnum \<Rightarrow> int \<Rightarrow> jsnum" where
  "minus (Num n) k = Num (n - k)"
| "minus NaN k = NaN"

text \<open>\<open>i < v\<close> for a number \<open>i\<close>: false when \<open>v\<close> converts to \<open>NaN\<close>.\<close>

fun less_than :: "int \<Rightarrow> jsnum \<Rightarrow> bool" where
  "less_than i (Num n) = (i < n)"
| "less_than i NaN = False"

text \<open>
  A property read \<open>v.name\<close>. Reading a property of \<open>undefined\<close> or \<open>null\<close>
  raises \<open>TypeError\<close>. An object yields its own property or \<open>undefined\<close>; an array
  or a string has \<open>length\<close>; every other name the program reads yields
  \<open>undefined\<close>. (The inherited methods \<open>map\<close> and \<open>split\<close> are not values of
  the model: the two places that call them are modelled where they stand. Properties
  inherited from \<open>Object.prototype\<close> are not modelled either; none of the names the
  program reads is one.)
\<close>

fun get :: "jsval \<Rightarrow> string \<Rightarrow> js_error + jsval" where
  "get JUndefined name = Inl TypeError"
| "get JNull name = Inl TypeError"
| "get (JObj kvs) name = Inr (case map_of kvs name of Some v \<Rightarrow> v | None \<Rightarrow> JUndefined)"
| "get (JArr vs) name = Inr (if name = ''length'' then JNum (int (length vs)) else JUndefined)"
| "get (JStr s) name = Inr (if name = ''length'' then JNum (int (length s)) else JUndefined)"
| "get _ name = Inr JUndefined"

text \<open>An indexed read \<open>v[i]\<close> with a number \<open>i \<ge> 0\<close>, on a value that is not
  \<open>undefined\<close> or \<open>null\<close>.\<close>

fun index :: "jsval \<Rightarrow> int \<Rightarrow> jsval" where
  "index (JArr vs) i = (if 0 \<le> i \<and> i < int (length vs) then vs ! nat i else JUndefined)"
| "index (JStr s) i = (if 0 \<le> i \<and> i < int (length s) then JStr [s ! nat i] else JUndefined)"
| "index (JObj kvs) i = (case map_of kvs (show_int i) of Some v \<Rightarrow> v | None \<Rightarrow> JUndefined)"
| "index _ i = JUndefined"

text \<open>Sequencing of computations that may raise.\<close>

definition and_then :: "'e + 'a \<Rightarrow> ('a \<Rightarrow> 'e + 'b) \<Rightarrow> 'e + 'b" where
  "and_then m f = (case m of Inl e \<Rightarrow> Inl e | Inr v \<Rightarrow> f v)"

section \<open>The objects of the editor's API\<close>

text \<open>
  The program builds values of the \<open>vscode\<close> API and hands them to the test run.
  The API is not part of the repository: each constructor is modelled as the record of
  the arguments the program passes, in the order it passes them, and the test run as
  the list of the calls made on it. What the editor does with an argument (rejecting a
  negative line, say) is outside the model.
\<close>

datatype uri = Uri_file jsval

datatype position = Position jsnum jsval

datatype location = Location uri position

text \<open>
  A \<open>vscode.TestMessage\<close>: \<open>message\<close> is the body given to the constructor;
  \<open>diff\<close> holds the second and third argument of \<open>TestMessage.diff\<close> when the
  message was built by it; \<open>location\<close> is the field the program assigns afterwards.
\<close>

record test_message =
  message :: jsval
  diff :: "(jsval \<times> jsval) option"
  location :: "location option"

datatype statement_coverage = StatementCoverage jsval position

text \<open>The repository's \<open>FileCoverage\<close> subclass keeps the details it was built from.\<close>

datatype file_coverage = FileCoverage uri "statement_coverage list"

text \<open>
  The calls on \<open>vscode.TestRun\<close>. A test handle is a \<open>vscode.TestItem\<close>, opaque to
  the program: the type variable \<open>'t\<close>. A handle read from \<open>this.tests\<close> may be
  \<open>undefined\<close>: \<open>None\<close>.
\<close>

datatype 't call =
    Started "'t option"
  | Passed "'t option" jsval
  | Failed "'t option" "test_message list" jsval
  | Errored "'t option" "test_message list" jsval
  | Skipped "'t option"
  | AppendOutput string "location option" "'t option"
  | AddCoverage file_coverage
  | End

section \<open>The runner\<close>

text \<open>The promise \<open>this.finished\<close>: pending until the exit handler settles it.\<close>

datatype promise = Pending | Resolved | Rejected js_error

text \<open>
  The state of a \<open>Runner\<close>. \<open>tests\<close> is the object \<open>this.tests\<close>: its own
  properties in the order the runtime enumerates them (the program never adds a
  property, and deleting one keeps the order of the others). The object is built
  outside this file, and with it its prototype: an identity that names an inherited
  property (\<open>constructor\<close>, say, on a plain object) is outside the model. \<open>testRun\<close> is the list
  of calls made on the test run so far, oldest first. \<open>stdin\<close> is what has been written
  to the child's standard input through the \<open>ndjson.stringify()\<close> stream, and
  \<open>stdin_ended\<close> whether it has been closed. The calls of \<open>console.log\<close> are left out.
\<close>

record 't runner =
  tests :: "(string \<times> 't) list"
  workspaceFolder_name :: string
  testRun :: "'t call list"
  stdin :: "jsval list"
  stdin_ended :: bool
  finished :: promise

text \<open>
  A method of the runner either returns or raises; in both cases the fields it has
  assigned so far keep their new values.
\<close>

datatype 't result = Done "'t runner" | Raised js_error "'t runner"

fun state_of :: "'t result \<Rightarrow> 't runner" where
  "state_of (Done r) = r"
| "state_of (Raised e r) = r"

definition call :: "'t call \<Rightarrow> 't runner \<Rightarrow> 't runner" where
  "call c r = r\<lparr>testRun := testRun r @ [c]\<rparr>"

definition CRLF :: string where
  "CRLF = [CHR 0x0D, CHR 0x0A]"

fun prepend :: "char \<Rightarrow> string list \<Rightarrow> string list" where
  "prepend c [] = [[c]]"
| "prepend c (l # ls) = (c # l) # ls"

text \<open>\<open>text.split(/\r?\n/)\<close>: a line feed, with the carriage return before it if
  there is one, ends a piece.\<close>

fun split_lines :: "string \<Rightarrow> string list" where
  "split_lines [] = [[]]"
| "split_lines [c] = (if c = CHR 0x0A then [[], []] else [[c]])"
| "split_lines (c # d # cs) =
     (if c = CHR 0x0D \<and> d = CHR 0x0A then [] # split_lines cs
      else if c = CHR 0x0A then [] # split_lines (d # cs)
      else prepend c (split_lines (d # cs)))"

declare split_lines.simps [simp del]

text \<open>
  \<open>appendOutput(text)\<close>. Only a string has a \<open>split\<close> method: on \<open>undefined\<close>
  and \<open>null\<close> the property read raises, on any other value the call of a property
  that is not a function does.
\<close>

definition appendOutput :: "jsval \<Rightarrow> 't runner \<Rightarrow> 't result" where
  "appendOutput text r =
     (case text of
        JStr s \<Rightarrow> Done (call (AppendOutput (join CRLF (split_lines s)) None None) r)
      | _ \<Rightarrow> Raised TypeError r)"

definition messageBodyFor :: "jsval \<Rightarrow> js_error + jsval" where
  "messageBodyFor data =
     and_then (get data ''text'') (\<lambda>text.
       if truthy text then Inr text else Inr JUndefined)"

definition locationFor :: "(string \<Rightarrow> jsnum) \<Rightarrow> jsval \<Rightarrow> js_error + location option" where
  "locationFor S data =
     and_then (get data ''location'') (\<lambda>loc.
       if truthy loc then
         and_then (get loc ''path'') (\<lambda>path.
         and_then (get loc ''line'') (\<lambda>line.
         and_then (get loc ''column'') (\<lambda>column.
           Inr (Some (Location (Uri_file path)
             (Position (minus (toNumber S line) 1) (if truthy column then column else JNum 0)))))))
       else Inr None)"

definition messageFor :: "(string \<Rightarrow> jsnum) \<Rightarrow> jsval \<Rightarrow> js_error + test_message" where
  "messageFor S data =
     and_then (messageBodyFor data) (\<lambda>body.
     and_then (get data ''actual'') (\<lambda>actual.
     and_then (if truthy actual then get data ''expected'' else Inr actual) (\<lambda>both.
     and_then (if truthy both
               then and_then (get data ''actual'') (\<lambda>a.
                    and_then (get data ''expected'') (\<lambda>e.
                      Inr \<lparr>message = body, diff = Some (a, e), location = None\<rparr>))
               else Inr \<lparr>message = body, diff = None, location = None\<rparr>) (\<lambda>msg.
     and_then (locationFor S data) (\<lambda>loc.
       Inr (msg\<lparr>location := loc\<rparr>))))))"

text \<open>\<open>Array.prototype.map\<close> with a callback that may raise: the first raise ends it.\<close>

fun traverse :: "('a \<Rightarrow> 'e + 'b) \<Rightarrow> 'a list \<Rightarrow> 'e + 'b list" where
  "traverse f [] = Inr []"
| "traverse f (x # xs) =
     and_then (f x) (\<lambda>y. and_then (traverse f xs) (\<lambda>ys. Inr (y # ys)))"

text \<open>
  \<open>messagesFor(data)\<close>. Only an array has a \<open>map\<close> method; \<open>data.messages\<close> is
  truthy where it is called, so on any other value the call raises.
\<close>

definition messagesFor :: "(string \<Rightarrow> jsnum) \<Rightarrow> jsval \<Rightarrow> js_error + test_message list" where
  "messagesFor S data =
     and_then (get data ''message'') (\<lambda>single.
       if truthy single then and_then (messageFor S single) (\<lambda>m. Inr [m])
       else and_then (get data ''messages'') (\<lambda>several.
         if truthy several then
           (case several of JArr vs \<Rightarrow> traverse (messageFor S) vs | _ \<Rightarrow> Inl TypeError)
         else Inr []))"

text \<open>\<open>this.tests[identity]\<close>: the value is used as a property key.\<close>

definition lookup :: "'t runner \<Rightarrow> jsval \<Rightarrow> 't option" where
  "lookup r identity = map_of (tests r) (toString identity)"

definition popTest :: "jsval \<Rightarrow> 't runner \<Rightarrow> 't option \<times> 't runner" where
  "popTest identity r =
     (let test = lookup r identity
      in (test, r\<lparr>tests := filter (\<lambda>(k, t). k \<noteq> toString identity) (tests r)\<rparr>))"

definition skipRemainingTests :: "'t runner \<Rightarrow> 't runner" where
  "skipRemainingTests r =
     r\<lparr>testRun := testRun r @ map (\<lambda>identity. Skipped (map_of (tests r) identity)) (map fst (tests r))\<rparr>"

text \<open>
  The loop of \<open>addCoverage\<close>. \<open>len\<close> is \<open>data.counts.length\<close> as the comparison
  converts it; nothing assigns to \<open>data\<close>, so every test of the loop reads the same
  value.
\<close>

function coverage_loop ::
  "jsval \<Rightarrow> jsnum \<Rightarrow> int \<Rightarrow> statement_coverage list \<Rightarrow> statement_coverage list" where
  "coverage_loop counts len lineNumber statementCoverage =
     (if less_than lineNumber len then
        coverage_loop counts len (lineNumber + 1)
          (let count = index counts lineNumber
           in if \<not> nullish count
              then statementCoverage @
                     [StatementCoverage count (Position (Num (lineNumber - 1)) (JNum 0))]
              else statementCoverage)
      else statementCoverage)"
  by pat_completeness auto
termination
  by (relation "measure (\<lambda>(counts, len, lineNumber, acc).
        case len of Num n \<Rightarrow> nat (n - lineNumber) | NaN \<Rightarrow> 0)")
     (auto split: jsnum.splits)

declare coverage_loop.simps [simp del]

text \<open>Continuing with the value of a computation that may raise, in a method of the
  runner: a raise leaves the method with the state \<open>r\<close>.\<close>

definition resolving :: "js_error + 'a \<Rightarrow> 't runner \<Rightarrow> ('a \<Rightarrow> 't result) \<Rightarrow> 't result" where
  "resolving m r k = (case m of Inl e \<Rightarrow> Raised e r | Inr v \<Rightarrow> k v)"

definition addCoverage :: "(string \<Rightarrow> jsnum) \<Rightarrow> jsval \<Rightarrow> 't runner \<Rightarrow> 't result" where
  "addCoverage S data r =
     resolving (get data ''coverage'') r (\<lambda>path.
     resolving (get data ''counts'') r (\<lambda>counts.
     resolving (get counts ''length'') r (\<lambda>len.
       Done (call (AddCoverage (FileCoverage (Uri_file path)
               (coverage_loop counts (toNumber S len) 0 []))) r))))"

text \<open>The \<open>forEach\<close> of \<open>inform\<close>: \<open>message.message.toString()\<close> raises on a body
  that is \<open>undefined\<close>, after the output of the messages before it.\<close>

fun output_each :: "'t option \<Rightarrow> test_message list \<Rightarrow> 't runner \<Rightarrow> 't result" where
  "output_each test [] r = Done r"
| "output_each test (m # ms) r =
     (if nullish (message m) then Raised TypeError r
      else output_each test ms (call (AppendOutput (toString (message m)) (location m) test) r))"

definition inform :: "(string \<Rightarrow> jsnum) \<Rightarrow> jsval \<Rightarrow> 't runner \<Rightarrow> 't result" where
  "inform S data r =
     resolving (get data ''inform'') r (\<lambda>identity.
     resolving (messagesFor S data) r (\<lambda>messages.
       output_each (lookup r identity) messages r))"

text \<open>
  \<open>onData(data)\<close>. The arguments of a call are evaluated from left to right: a
  terminal event removes the test before it resolves its messages.
\<close>

definition onData :: "(string \<Rightarrow> jsnum) \<Rightarrow> jsval \<Rightarrow> 't runner \<Rightarrow> 't result" where
  "onData S data r =
     resolving (get data ''started'') r (\<lambda>started.
     if truthy started then Done (call (Started (lookup r started)) r) else
     resolving (get data ''inform'') r (\<lambda>informed.
     if truthy informed then inform S data r else
     resolving (get data ''passed'') r (\<lambda>passed.
     if truthy passed then
       (let (test, r1) = popTest passed r in
        resolving (get data ''duration'') r1 (\<lambda>duration.
          Done (call (Passed test duration) r1))) else
     resolving (get data ''failed'') r (\<lambda>failed.
     if truthy failed then
       (let (test, r1) = popTest failed r in
        resolving (messagesFor S data) r1 (\<lambda>messages.
        resolving (get data ''duration'') r1 (\<lambda>duration.
          Done (call (Failed test messages duration) r1)))) else
     resolving (get data ''errored'') r (\<lambda>errored.
     if truthy errored then
       (let (test, r1) = popTest errored r in
        resolving (messagesFor S data) r1 (\<lambda>messages.
        resolving (get data ''duration'') r1 (\<lambda>duration.
          Done (call (Errored test messages duration) r1)))) else
     resolving (get data ''finished'') r (\<lambda>fin.
     if truthy fin then
       resolving (get data ''message'') r (\<lambda>msg.
         (case appendOutput msg r of
            Raised e r1 \<Rightarrow> Raised e r1
          | Done r1 \<Rightarrow> Done (r1\<lparr>stdin_ended := True\<rparr>))) else
     resolving (get data ''coverage'') r (\<lambda>coverage.
     if truthy coverage then addCoverage S data r else
     Done r)))))))"

section \<open>The session\<close>

text \<open>
  The constructor: it installs the listeners below, creates the pending promise and
  writes the request \<open>{run: Object.keys(this.tests)}\<close>. The test run it is given is
  taken with no call on it yet.
\<close>

definition constructor :: "string \<Rightarrow> (string \<times> 't) list \<Rightarrow> 't runner" where
  "constructor name ts =
     \<lparr>tests = ts,
      workspaceFolder_name = name,
      testRun = [],
      stdin = [JObj [(''run'', JArr (map JStr (map fst ts)))]],
      stdin_ended = False,
      finished = Pending\<rparr>"

text \<open>\<open>resolve\<close> and \<open>reject\<close> settle a pending promise and do nothing to a settled one.\<close>

definition settle :: "promise \<Rightarrow> promise \<Rightarrow> promise" where
  "settle outcome p = (if p = Pending then outcome else p)"

text \<open>The exit code as a template literal prints it: \<open>null\<close> when the child was
  ended by a signal.\<close>

definition show_code :: "int option \<Rightarrow> string" where
  "show_code code = (case code of None \<Rightarrow> ''null'' | Some n \<Rightarrow> show_int n)"

text \<open>The listener of the child's \<open>exit\<close> event. \<open>code == 0\<close> is false for \<open>null\<close>.\<close>

definition on_exit :: "int option \<Rightarrow> 't runner \<Rightarrow> 't result" where
  "on_exit code r =
     (case appendOutput (JStr (''Test host exited with code '' @ show_code code @ CRLF)) r of
        Raised e r1 \<Rightarrow> Raised e r1
      | Done r1 \<Rightarrow>
          if code = Some 0 then Done (r1\<lparr>finished := settle Resolved (finished r1)\<rparr>)
          else Done (r1\<lparr>finished :=
                 settle (Rejected (Error (''Test host exited with code '' @ show_code code)))
                   (finished r1)\<rparr>))"

text \<open>
  What the child process does, as the runner's listeners see it: a decoded line of its
  standard output, a chunk of its standard error, or an \<open>error\<close> event.
\<close>

datatype host_event = Stdout jsval | Stderr string | ProcessError string

definition listener :: "(string \<Rightarrow> jsnum) \<Rightarrow> host_event \<Rightarrow> 't runner \<Rightarrow> 't result" where
  "listener S ev r =
     (case ev of
        Stdout data \<Rightarrow> onData S data r
      | Stderr chunk \<Rightarrow> appendOutput (JStr chunk) r
      | ProcessError msg \<Rightarrow> appendOutput (JStr msg) r)"

text \<open>
  The listeners run one at a time, in the order of the events. \<open>onData\<close> is the
  \<open>data\<close> listener of the stream \<open>this.child.stdout.pipe(ndjson.parse())\<close>. That
  stream delivers the decoded lines while it flows, and it stops for good when the
  listener raises or when a line decodes to \<open>null\<close> (which ends the stream, and is
  not delivered): no later line reaches \<open>onData\<close>. The state is then as the raising
  listener left it. The listeners of the standard error and of the \<open>error\<close> event
  are on other emitters and go on.

  \<open>feed S flowing evs r\<close> is the runner after the events \<open>evs\<close>, from the runner
  \<open>r\<close> and a stream that is flowing or not.
\<close>

fun feed :: "(string \<Rightarrow> jsnum) \<Rightarrow> bool \<Rightarrow> host_event list \<Rightarrow> 't runner \<Rightarrow> 't runner" where
  "feed S flowing [] r = r"
| "feed S flowing (Stdout data # evs) r =
     (if flowing \<and> \<not> nullish data then
        (case onData S data r of
           Done r1 \<Rightarrow> feed S True evs r1
         | Raised e r1 \<Rightarrow> feed S False evs r1)
      else feed S False evs r)"
| "feed S flowing (Stderr chunk # evs) r =
     feed S flowing evs (state_of (appendOutput (JStr chunk) r))"
| "feed S flowing (ProcessError msg # evs) r =
     feed S flowing evs (state_of (appendOutput (JStr msg) r))"

text \<open>
  The events of \<open>evs\<close> that reach a listener, in their order: all of the standard
  error and the \<open>error\<close> events, and the decoded lines up to the one that stops the
  stream, that one included when it is a listener's raise that stops it.
\<close>

fun handled ::
  "(string \<Rightarrow> jsnum) \<Rightarrow> bool \<Rightarrow> host_event list \<Rightarrow> 't runner \<Rightarrow> host_event list" where
  "handled S flowing [] r = []"
| "handled S flowing (Stdout data # evs) r =
     (if flowing \<and> \<not> nullish data then
        Stdout data #
          (case onData S data r of
             Done r1 \<Rightarrow> handled S True evs r1
           | Raised e r1 \<Rightarrow> handled S False evs r1)
      else handled S False evs r)"
| "handled S flowing (Stderr chunk # evs) r =
     Stderr chunk # handled S flowing evs (state_of (appendOutput (JStr chunk) r))"
| "handled S flowing (ProcessError msg # evs) r =
     ProcessError msg # handled S flowing evs (state_of (appendOutput (JStr msg) r))"

text \<open>
  \<open>run()\<close> is an \<open>async\<close> method: it runs up to \<open>await this.finished\<close>, and
  resumes when the promise is settled. \<open>run_begin\<close> is the first part.
\<close>

definition run_begin :: "'t runner \<Rightarrow> 't result" where
  "run_begin r =
     appendOutput (JStr (''Running tests in '' @ workspaceFolder_name r @ ''...'' @ CRLF)) r"

text \<open>\<open>await p\<close>: nothing while \<open>p\<close> is pending, then its value or its error.\<close>

definition await :: "promise \<Rightarrow> (js_error + unit) option" where
  "await p = (case p of Pending \<Rightarrow> None | Resolved \<Rightarrow> Some (Inr ()) | Rejected e \<Rightarrow> Some (Inl e))"

text \<open>
  The second part of \<open>run()\<close>: \<open>None\<close> while the promise is pending. The
  \<open>catch\<close> block only logs to the console; the \<open>finally\<close> block runs after the
  \<open>try\<close> block or the \<open>catch\<close> block, whichever ended the statement, and a raise of
  the \<open>catch\<close> block would pass through it.
\<close>

definition run_resume :: "'t runner \<Rightarrow> 't result option" where
  "run_resume r =
     (case await (finished r) of
        None \<Rightarrow> None
      | Some awaited \<Rightarrow>
          Some (case (case awaited of Inl error \<Rightarrow> Done r | Inr u \<Rightarrow> Done r) of
                  Done r1 \<Rightarrow> Done (call End (skipRemainingTests r1))
                | Raised e r1 \<Rightarrow> Raised e (call End (skipRemainingTests r1))))"

text \<open>
  A session: the runner is constructed, \<open>run()\<close> is called, the child's events
  come, the stream flowing at first, the child exits with \<open>code\<close>, and \<open>run()\<close>
  resumes. The output of the child is taken to be delivered before its exit.
\<close>

definition until_exit ::
  "(string \<Rightarrow> jsnum) \<Rightarrow> host_event list \<Rightarrow> int option \<Rightarrow> 't runner \<Rightarrow> 't runner" where
  "until_exit S evs code r = state_of (on_exit code (feed S True evs r))"

definition session ::
  "(string \<Rightarrow> jsnum) \<Rightarrow> string \<Rightarrow> (string \<times> 't) list \<Rightarrow> host_event list \<Rightarrow> int option
     \<Rightarrow> 't result option" where
  "session S name ts evs code =
     (case run_begin (constructor name ts) of
        Raised e r \<Rightarrow> Some (Raised e r)
      | Done r \<Rightarrow> run_resume (until_exit S evs code r))"


section \<open>What a session reports\<close>

text \<open>
  The results a list of calls reports, one entry per call of \<open>passed\<close>, \<open>failed\<close>,
  \<open>errored\<close> or \<open>skipped\<close>, in the order of the calls: which result, and for which
  handle. A call with an undefined handle reports for no test.
\<close>

datatype verdict = WasPassed | WasFailed | WasErrored | WasSkipped

fun results :: "'t call list \<Rightarrow> (verdict \<times> 't) list" where
  "results [] = []"
| "results (Passed (Some t) d # cs) = (WasPassed, t) # results cs"
| "results (Failed (Some t) ms d # cs) = (WasFailed, t) # results cs"
| "results (Errored (Some t) ms d # cs) = (WasErrored, t) # results cs"
| "results (Skipped (Some t) # cs) = (WasSkipped, t) # results cs"
| "results (c # cs) = results cs"

fun skipped :: "'t call list \<Rightarrow> 't option list" where
  "skipped [] = []"
| "skipped (Skipped t # cs) = t # skipped cs"
| "skipped (c # cs) = skipped cs"

text \<open>
  The tag \<open>onData\<close> acts on: the first of the seven, in the order of its tests,
  whose value is truthy.
\<close>

definition tags :: "string list" where
  "tags = [''started'', ''inform'', ''passed'', ''failed'', ''errored'', ''finished'', ''coverage'']"

definition first_tag :: "jsval \<Rightarrow> string option" where
  "first_tag data =
     find (\<lambda>tag. case get data tag of Inr v \<Rightarrow> truthy v | Inl e \<Rightarrow> False) tags"

text \<open>The transition of each tag, as the body of its branch.\<close>

definition terminal_transition ::
  "(string \<Rightarrow> jsnum) \<Rightarrow> ('t option \<Rightarrow> test_message list \<Rightarrow> jsval \<Rightarrow> 't call) \<Rightarrow> string
     \<Rightarrow> jsval \<Rightarrow> 't runner \<Rightarrow> 't result" where
  "terminal_transition S report tag data r =
     resolving (get data tag) r (\<lambda>identity.
       let (test, r1) = popTest identity r in
       resolving (messagesFor S data) r1 (\<lambda>messages.
       resolving (get data ''duration'') r1 (\<lambda>duration.
         Done (call (report test messages duration) r1))))"

definition transition :: "(string \<Rightarrow> jsnum) \<Rightarrow> string \<Rightarrow> jsval \<Rightarrow> 't runner \<Rightarrow> 't result" where
  "transition S tag data r =
     (if tag = ''started'' then
        resolving (get data ''started'') r (\<lambda>identity. Done (call (Started (lookup r identity)) r))
      else if tag = ''inform'' then inform S data r
      else if tag = ''passed'' then
        resolving (get data ''passed'') r (\<lambda>identity.
          let (test, r1) = popTest identity r in
          resolving (get data ''duration'') r1 (\<lambda>duration. Done (call (Passed test duration) r1)))
      else if tag = ''failed'' then terminal_transition S Failed ''failed'' data r
      else if tag = ''errored'' then terminal_transition S Errored ''errored'' data r
      else if tag = ''finished'' then
        resolving (get data ''message'') r (\<lambda>msg.
          (case appendOutput msg r of
             Raised e r1 \<Rightarrow> Raised e r1
           | Done r1 \<Rightarrow> Done (r1\<lparr>stdin_ended := True\<rparr>)))
      else addCoverage S data r)"

text \<open>
  A terminal event: one the runner acts on as passed, failed or errored. \<open>terminal\<close>
  gives its result and the key of \<open>this.tests\<close> its identity names.
\<close>

definition verdict_of :: "string \<Rightarrow> verdict option" where
  "verdict_of tag =
     (if tag = ''passed'' then Some WasPassed
      else if tag = ''failed'' then Some WasFailed
      else if tag = ''errored'' then Some WasErrored
      else None)"

definition terminal :: "host_event \<Rightarrow> (verdict \<times> string) option" where
  "terminal ev =
     (case ev of
        Stdout data \<Rightarrow>
          (case first_tag data of
             Some tag \<Rightarrow>
               (case (verdict_of tag, get data tag) of
                  (Some v, Inr identity) \<Rightarrow> Some (v, toString identity)
                | _ \<Rightarrow> None)
           | None \<Rightarrow> None)
      | _ \<Rightarrow> None)"

definition terminal_key :: "host_event \<Rightarrow> string option" where
  "terminal_key ev = map_option snd (terminal ev)"

definition terminal_keys :: "host_event list \<Rightarrow> string list" where
  "terminal_keys evs = List.map_filter terminal_key evs"



text \<open>The hit count a statement entry was built with.\<close>

fun executed :: "statement_coverage \<Rightarrow> jsval" where
  "executed (StatementCoverage c p) = c"

section \<open>Notions used in the proofs\<close>

text \<open>The value of a property read that does not raise.\<close>

definition field :: "jsval \<Rightarrow> string \<Rightarrow> jsval" where
  "field v name = (case get v name of Inr x \<Rightarrow> x | Inl e \<Rightarrow> JUndefined)"

text \<open>The runner after the listeners of the events \<open>evs\<close>, each of which reaches
  its listener.\<close>

fun handle_all :: "(string \<Rightarrow> jsnum) \<Rightarrow> host_event list \<Rightarrow> 't runner \<Rightarrow> 't runner" where
  "handle_all S [] r = r"
| "handle_all S (ev # evs) r = handle_all S evs (state_of (listener S ev r))"

text \<open>
  \<open>quiet r r'\<close>: from \<open>r\<close> to \<open>r'\<close> the pending tests and the promise are the
  same, and no result was reported.
\<close>

definition quiet :: "'t runner \<Rightarrow> 't runner \<Rightarrow> bool" where
  "quiet r r' \<longleftrightarrow>
     tests r' = tests r \<and> finished r' = finished r
     \<and> results (testRun r') = results (testRun r) \<and> skipped (testRun r') = skipped (testRun r)"

text \<open>
  A value for the parameter \<open>S\<close> in the closed examples below, none of which converts
  a string to a number.
\<close>

definition S0 :: "string \<Rightarrow> jsnum" where
  "S0 s = NaN"

section \<open>Auxiliary facts\<close>

lemma and_then_Inr [simp]: "and_then (Inr v) f = f v"
  by (simp add: and_then_def)

lemma and_then_Inl [simp]: "and_then (Inl e) f = Inl e"
  by (simp add: and_then_def)

lemma resolving_Inr [simp]: "resolving (Inr v) r k = k v"
  by (simp add: resolving_def)

lemma resolving_Inl [simp]: "resolving (Inl e) r k = Raised e r"
  by (simp add: resolving_def)

lemma get_field: "\<not> nullish v \<Longrightarrow> get v name = Inr (field v name)"
  by (cases v) (simp_all add: field_def)

lemma get_nullish: "nullish v \<Longrightarrow> get v name = Inl TypeError"
  by (cases v) simp_all

lemma call_simps [simp]:
  "tests (call c r) = tests r"
  "testRun (call c r) = testRun r @ [c]"
  "finished (call c r) = finished r"
  "stdin (call c r) = stdin r"
  "stdin_ended (call c r) = stdin_ended r"
  "workspaceFolder_name (call c r) = workspaceFolder_name r"
  by (simp_all add: call_def)

lemma appendOutput_JStr [simp]:
  "appendOutput (JStr s) r = Done (call (AppendOutput (join CRLF (split_lines s)) None None) r)"
  by (simp add: appendOutput_def)

lemma popTest_fst [simp]: "fst (popTest v r) = lookup r v"
  by (simp add: popTest_def)

lemma popTest_snd [simp]:
  "snd (popTest v r) = r\<lparr>tests := filter (\<lambda>(k, t). k \<noteq> toString v) (tests r)\<rparr>"
  by (simp add: popTest_def)

subsection \<open>The dispatch of \<open>onData\<close> as a chain of tests\<close>

lemma onData_nullish: "nullish data \<Longrightarrow> onData S data r = Raised TypeError r"
  by (simp add: onData_def get_nullish)

lemma onData_chain:
  "\<not> nullish data \<Longrightarrow>
   onData S data r =
     (if truthy (field data ''started'') then Done (call (Started (lookup r (field data ''started''))) r)
      else if truthy (field data ''inform'') then inform S data r
      else if truthy (field data ''passed'') then
        Done (call (Passed (fst (popTest (field data ''passed'') r)) (field data ''duration''))
               (snd (popTest (field data ''passed'') r)))
      else if truthy (field data ''failed'') then
        resolving (messagesFor S data) (snd (popTest (field data ''failed'') r)) (\<lambda>messages.
          Done (call (Failed (fst (popTest (field data ''failed'') r)) messages (field data ''duration''))
                 (snd (popTest (field data ''failed'') r))))
      else if truthy (field data ''errored'') then
        resolving (messagesFor S data) (snd (popTest (field data ''errored'') r)) (\<lambda>messages.
          Done (call (Errored (fst (popTest (field data ''errored'') r)) messages (field data ''duration''))
                 (snd (popTest (field data ''errored'') r))))
      else if truthy (field data ''finished'') then
        (case appendOutput (field data ''message'') r of
           Raised e r1 \<Rightarrow> Raised e r1
         | Done r1 \<Rightarrow> Done (r1\<lparr>stdin_ended := True\<rparr>))
      else if truthy (field data ''coverage'') then addCoverage S data r
      else Done r)"
  by (simp add: onData_def get_field split_beta Let_def)

lemma first_tag_chain:
  "\<not> nullish data \<Longrightarrow>
   first_tag data =
     (if truthy (field data ''started'') then Some ''started''
      else if truthy (field data ''inform'') then Some ''inform''
      else if truthy (field data ''passed'') then Some ''passed''
      else if truthy (field data ''failed'') then Some ''failed''
      else if truthy (field data ''errored'') then Some ''errored''
      else if truthy (field data ''finished'') then Some ''finished''
      else if truthy (field data ''coverage'') then Some ''coverage''
      else None)"
  by (simp add: first_tag_def tags_def get_field)

lemma first_tag_nullish: "nullish data \<Longrightarrow> first_tag data = None"
  by (simp add: first_tag_def tags_def get_nullish)

lemma onData_first_tag:
  "\<not> nullish data \<Longrightarrow>
   onData S data r = (case first_tag data of None \<Rightarrow> Done r | Some tag \<Rightarrow> transition S tag data r)"
  by (simp add: onData_chain first_tag_chain transition_def terminal_transition_def get_field
        split_beta Let_def)

lemma terminal_chain:
  "\<not> nullish data \<Longrightarrow>
   terminal (Stdout data) =
     (if truthy (field data ''started'') then None
      else if truthy (field data ''inform'') then None
      else if truthy (field data ''passed'')
        then Some (WasPassed, toString (field data ''passed''))
      else if truthy (field data ''failed'')
        then Some (WasFailed, toString (field data ''failed''))
      else if truthy (field data ''errored'')
        then Some (WasErrored, toString (field data ''errored''))
      else None)"
  by (simp add: terminal_def verdict_of_def first_tag_chain get_field)

lemma terminal_nullish: "nullish data \<Longrightarrow> terminal (Stdout data) = None"
  by (simp add: terminal_def first_tag_nullish)

lemma terminal_other [simp]:
  "terminal (Stderr chunk) = None" "terminal (ProcessError msg) = None"
  by (simp_all add: terminal_def)


subsection \<open>Calls that report no result\<close>

lemma results_append: "results (xs @ ys) = results xs @ results ys"
  by (induction xs rule: results.induct) simp_all

lemma skipped_append: "skipped (xs @ ys) = skipped xs @ skipped ys"
  by (induction xs rule: skipped.induct) simp_all


lemma skipped_map_Skipped: "skipped (map (\<lambda>x. Skipped (f x)) xs) = map f xs"
  by (induction xs) simp_all


lemma quiet_refl [simp]: "quiet r r"
  by (simp add: quiet_def)

lemma quiet_trans: "quiet r r1 \<Longrightarrow> quiet r1 r2 \<Longrightarrow> quiet r r2"
  by (simp add: quiet_def)

lemma quiet_AppendOutput [simp]: "quiet r (call (AppendOutput s l t) r)"
  by (simp add: quiet_def results_append skipped_append)

lemma quiet_AddCoverage [simp]: "quiet r (call (AddCoverage c) r)"
  by (simp add: quiet_def results_append skipped_append)

lemma quiet_appendOutput [simp]: "quiet r (state_of (appendOutput v r))"
  by (cases v) (simp_all add: appendOutput_def)

lemma quiet_output_each: "quiet r (state_of (output_each t ms r))"
proof (induction ms arbitrary: r)
  case Nil
  show ?case by simp
next
  case (Cons m ms)
  show ?case
  proof (cases "nullish (message m)")
    case True
    then show ?thesis by simp
  next
    case False
    have "quiet r (call (AppendOutput (toString (message m)) (location m) t) r)" by simp
    from quiet_trans [OF this Cons.IH] False show ?thesis by simp
  qed
qed

lemma quiet_inform [simp]: "quiet r (state_of (inform S data r))"
  by (simp add: inform_def resolving_def quiet_output_each split: sum.splits)

lemma quiet_addCoverage [simp]: "quiet r (state_of (addCoverage S data r))"
  by (simp add: addCoverage_def resolving_def split: sum.splits)

lemma quiet_finished_branch:
  "quiet r (state_of (case appendOutput v r of Raised e r1 \<Rightarrow> Raised e r1
                      | Done r1 \<Rightarrow> Done (r1\<lparr>stdin_ended := True\<rparr>)))"
  using quiet_appendOutput [of r v] by (cases "appendOutput v r") (simp_all add: quiet_def)

subsection \<open>The effect of one listener\<close>

lemma listener_finished: "finished (state_of (listener S ev r)) = finished r"
proof (cases ev)
  case (Stdout data)
  show ?thesis
  proof (cases "nullish data")
    case True
    then show ?thesis by (simp add: Stdout listener_def onData_nullish)
  next
    case False
    have a: "finished (state_of (inform S data r)) = finished r"
      using quiet_inform [of r S data] by (simp add: quiet_def)
    have b: "finished (state_of (addCoverage S data r)) = finished r"
      using quiet_addCoverage [of r S data] by (simp add: quiet_def)
    have d: "finished (state_of (case appendOutput v r of Raised e r1 \<Rightarrow> Raised e r1
               | Done r1 \<Rightarrow> Done (r1\<lparr>stdin_ended := True\<rparr>))) = finished r" for v
      using quiet_finished_branch [of r v] by (simp add: quiet_def)
    show ?thesis
      using False
      by (simp add: Stdout listener_def onData_chain a b d resolving_def split: sum.splits)
  qed
next
  case (Stderr chunk)
  then show ?thesis by (simp add: listener_def)
next
  case (ProcessError msg)
  then show ?thesis by (simp add: listener_def)
qed

lemma listener_tests:
  "tests (state_of (listener S ev r)) =
     (case terminal ev of None \<Rightarrow> tests r
      | Some (v, k) \<Rightarrow> filter (\<lambda>(k', t). k' \<noteq> k) (tests r))"
proof (cases ev)
  case (Stdout data)
  show ?thesis
  proof (cases "nullish data")
    case True
    then show ?thesis by (simp add: Stdout listener_def onData_nullish terminal_nullish)
  next
    case False
    have a: "tests (state_of (inform S data r)) = tests r"
      using quiet_inform [of r S data] by (simp add: quiet_def)
    have b: "tests (state_of (addCoverage S data r)) = tests r"
      using quiet_addCoverage [of r S data] by (simp add: quiet_def)
    have d: "tests (state_of (case appendOutput v r of Raised e r1 \<Rightarrow> Raised e r1
               | Done r1 \<Rightarrow> Done (r1\<lparr>stdin_ended := True\<rparr>))) = tests r" for v
      using quiet_finished_branch [of r v] by (simp add: quiet_def)
    show ?thesis
      using False
      by (simp add: Stdout listener_def onData_chain terminal_chain a b d resolving_def
            split: sum.splits)
  qed
next
  case (Stderr chunk)
  then show ?thesis by (simp add: listener_def)
next
  case (ProcessError msg)
  then show ?thesis by (simp add: listener_def)
qed

lemma listener_skipped: "skipped (testRun (state_of (listener S ev r))) = skipped (testRun r)"
proof (cases ev)
  case (Stdout data)
  show ?thesis
  proof (cases "nullish data")
    case True
    then show ?thesis by (simp add: Stdout listener_def onData_nullish)
  next
    case False
    have a: "skipped (testRun (state_of (inform S data r))) = skipped (testRun r)"
      using quiet_inform [of r S data] by (simp add: quiet_def)
    have b: "skipped (testRun (state_of (addCoverage S data r))) = skipped (testRun r)"
      using quiet_addCoverage [of r S data] by (simp add: quiet_def)
    have d: "skipped (testRun (state_of (case appendOutput v r of Raised e r1 \<Rightarrow> Raised e r1
               | Done r1 \<Rightarrow> Done (r1\<lparr>stdin_ended := True\<rparr>)))) = skipped (testRun r)" for v
      using quiet_finished_branch [of r v] by (simp add: quiet_def)
    show ?thesis
      using False
      by (simp add: Stdout listener_def onData_chain a b d resolving_def skipped_append
            split: sum.splits)
  qed
next
  case (Stderr chunk)
  then show ?thesis by (simp add: listener_def skipped_append)
next
  case (ProcessError msg)
  then show ?thesis by (simp add: listener_def skipped_append)
qed


subsection \<open>The effect of a run of listeners\<close>

lemma handle_all_finished: "finished (handle_all S evs r) = finished r"
  by (induction evs arbitrary: r) (simp_all add: listener_finished)

lemma handle_all_skipped: "skipped (testRun (handle_all S evs r)) = skipped (testRun r)"
  by (induction evs arbitrary: r) (simp_all add: listener_skipped)

lemma terminal_keys_Nil [simp]: "terminal_keys [] = []"
  by (simp add: terminal_keys_def)

lemma terminal_keys_Cons:
  "terminal_keys (ev # evs) =
     (case terminal ev of None \<Rightarrow> terminal_keys evs | Some (v, k) \<Rightarrow> k # terminal_keys evs)"
  by (simp add: terminal_keys_def terminal_key_def map_filter_simps split: option.splits)

lemma handle_all_tests:
  "tests (handle_all S evs r) = filter (\<lambda>(k, t). k \<notin> set (terminal_keys evs)) (tests r)"
proof (induction evs arbitrary: r)
  case Nil
  show ?case by simp
next
  case (Cons ev evs)
  show ?case
  proof (cases "terminal ev")
    case None
    then show ?thesis by (simp add: Cons.IH listener_tests terminal_keys_Cons)
  next
    case (Some p)
    then show ?thesis
      by (simp add: Cons.IH listener_tests terminal_keys_Cons case_prod_beta conj_commute)
  qed
qed






lemma feed_handled: "feed S flowing evs r = handle_all S (handled S flowing evs r) r"
proof (induction S flowing evs r rule: feed.induct)
  case (1 S flowing r)
  show ?case by simp
next
  case (2 S flowing data evs r)
  show ?case
  proof (cases "flowing \<and> \<not> nullish data")
    case True
    with 2 show ?thesis
      by (cases "onData S data r") (simp_all add: listener_def)
  next
    case False
    with 2 show ?thesis by auto
  qed
next
  case (3 S flowing chunk evs r)
  then show ?case by (simp add: listener_def)
next
  case (4 S flowing msg evs r)
  then show ?case by (simp add: listener_def)
qed

lemma feed_finished: "finished (feed S flowing evs r) = finished r"
  by (simp add: feed_handled handle_all_finished)

lemma feed_skipped: "skipped (testRun (feed S flowing evs r)) = skipped (testRun r)"
  by (simp add: feed_handled handle_all_skipped)

lemma feed_tests:
  "tests (feed S flowing evs r) =
     filter (\<lambda>(k, t). k \<notin> set (terminal_keys (handled S flowing evs r))) (tests r)"
  by (simp add: feed_handled handle_all_tests)


subsection \<open>The line the exit handler appends\<close>

lemma split_lines_line:
  "CHR 0x0A \<notin> set p \<Longrightarrow> split_lines (p @ [CHR 0x0D, CHR 0x0A]) = [p, []]"
  by (induction p rule: split_lines.induct) (auto simp: split_lines.simps)

lemma digit_not_LF: "k < 10 \<Longrightarrow> ''0123456789'' ! k \<noteq> CHR 0x0A"
proof -
  assume "k < 10"
  then have "''0123456789'' ! k \<in> set ''0123456789''" by (intro nth_mem) simp
  then show ?thesis by auto
qed

lemma digits_no_LF: "CHR 0x0A \<notin> set (digits n)"
proof (induction n rule: digits.induct)
  case (1 n)
  show ?case
  proof (cases "n < 10")
    case True
    then show ?thesis using digit_not_LF [of n] by (subst digits.simps) simp
  next
    case False
    then show ?thesis
      using 1 digit_not_LF [of "n mod 10"] by (subst digits.simps) simp
  qed
qed

lemma show_code_no_LF: "CHR 0x0A \<notin> set (show_code code)"
  by (cases code) (simp_all add: show_code_def show_int_def digits_no_LF)

lemma exit_line:
  "join CRLF (split_lines (''Test host exited with code '' @ show_code code @ CRLF))
     = ''Test host exited with code '' @ show_code code @ CRLF"
proof -
  have "CHR 0x0A \<notin> set (''Test host exited with code '' @ show_code code)"
    using show_code_no_LF [of code] by simp
  from split_lines_line [OF this] show ?thesis by (simp add: CRLF_def)
qed

subsection \<open>Exit and the two parts of \<open>run\<close>\<close>

lemma on_exit_Done:
  "on_exit code r =
     Done ((call (AppendOutput (''Test host exited with code '' @ show_code code @ CRLF) None None) r)
       \<lparr>finished := settle (if code = Some 0 then Resolved
                    else Rejected (Error (''Test host exited with code '' @ show_code code)))
                  (finished r)\<rparr>)"
  using exit_line [of code] by (simp add: on_exit_def)

lemma run_begin_Done:
  "run_begin r = Done (call (AppendOutput (join CRLF (split_lines
      (''Running tests in '' @ workspaceFolder_name r @ ''...'' @ CRLF))) None None) r)"
  by (simp add: run_begin_def)

lemma until_exit_finished:
  "finished r = Pending \<Longrightarrow>
   finished (until_exit S evs code r) =
     (if code = Some 0 then Resolved
      else Rejected (Error (''Test host exited with code '' @ show_code code)))"
  by (simp add: until_exit_def on_exit_Done feed_finished settle_def)

lemma until_exit_tests:
  "tests (until_exit S evs code r) =
     filter (\<lambda>(k, t). k \<notin> set (terminal_keys (handled S True evs r))) (tests r)"
  by (simp add: until_exit_def on_exit_Done feed_tests)

lemma until_exit_skipped:
  "skipped (testRun (until_exit S evs code r)) = skipped (testRun r)"
  by (simp add: until_exit_def on_exit_Done feed_skipped skipped_append)


lemma run_resume_settled:
  "finished r \<noteq> Pending \<Longrightarrow> run_resume r = Some (Done (call End (skipRemainingTests r)))"
  by (cases "finished r") (simp_all add: run_resume_def await_def)

lemma session_Done:
  "session S name ts evs code =
     Some (Done (call End (skipRemainingTests
       (until_exit S evs code (state_of (run_begin (constructor name ts)))))))"
proof -
  let ?a = "state_of (run_begin (constructor name ts))"
  have "finished ?a = Pending" by (simp add: run_begin_Done constructor_def)
  then have "finished (until_exit S evs code ?a) \<noteq> Pending"
    by (simp add: until_exit_finished)
  from run_resume_settled [OF this] show ?thesis
    by (simp add: session_def run_begin_Done)
qed

subsection \<open>The loop of \<open>addCoverage\<close> on an array\<close>

lemma coverage_loop_array:
  "i \<le> length cs \<Longrightarrow>
   coverage_loop (JArr cs) (Num (int (length cs))) (int i) acc =
     acc @ map (\<lambda>j. StatementCoverage (cs ! j) (Position (Num (int j - 1)) (JNum 0)))
               (filter (\<lambda>j. \<not> nullish (cs ! j)) [i..<length cs])"
proof (induction "length cs - i" arbitrary: i acc)
  case 0
  then have "i = length cs" by simp
  then show ?case by (simp add: coverage_loop.simps)
next
  case (Suc d)
  then have lt: "i < length cs" by simp
  then have step: "[i..<length cs] = i # [Suc i..<length cs]"
    by (simp add: upt_conv_Cons)
  have d: "d = length cs - Suc i" using Suc.hyps(2) by simp
  have le: "Suc i \<le> length cs" using lt by simp
  have next_i: "int i + 1 = int (Suc i)" by simp
  show ?case
    using lt
    by (subst coverage_loop.simps)
       (simp only: next_i Suc.hyps(1) [OF d le] step, simp)
qed

lemma addCoverage_array:
  assumes "get data ''coverage'' = Inr path"
    and "get data ''counts'' = Inr (JArr cs)"
  shows "addCoverage S data r =
           Done (call (AddCoverage (FileCoverage (Uri_file path)
             (map (\<lambda>i. StatementCoverage (cs ! i) (Position (Num (int i - 1)) (JNum 0)))
                  (filter (\<lambda>i. \<not> nullish (cs ! i)) [0..<length cs])))) r)"
  using assms coverage_loop_array [of 0 cs "[]"] by (simp add: addCoverage_def)

lemma filter_nth_upt: "map ((!) cs) (filter (\<lambda>j. P (cs ! j)) [0..<length cs]) = filter P cs"
proof -
  have "filter P (map ((!) cs) [0..<length cs]) = filter P cs"
    by (simp add: map_nth)
  then show ?thesis by (simp add: filter_map comp_def)
qed

section \<open>Every requested test is reported once\<close>




section \<open>The exit handler and the promise\<close>

text \<open>
  C2. On a pending promise the exit handler returns, has appended the line
  \<open>Test host exited with code X\<close>, and has resolved the promise if the code is 0 and
  rejected it with an error carrying the code otherwise, \<open>null\<close> included. On a
  settled promise it leaves the outcome as it is: the promise is settled once. In a
  session the promise is pending until the exit, so its outcome is the one the exit
  code decides.
\<close>

theorem on_exit_settles_once:
  "(finished r = Pending \<longrightarrow>
      on_exit code r =
        Done ((call (AppendOutput (''Test host exited with code '' @ show_code code @ CRLF) None None) r)
          \<lparr>finished := (if code = Some 0 then Resolved
              else Rejected (Error (''Test host exited with code '' @ show_code code)))\<rparr>))
   \<and> (finished r \<noteq> Pending \<longrightarrow> finished (state_of (on_exit code r)) = finished r)
   \<and> finished (until_exit S evs code (state_of (run_begin (constructor name ts)))) =
       (if code = Some 0 then Resolved
        else Rejected (Error (''Test host exited with code '' @ show_code code)))"
proof -
  have "finished (state_of (run_begin (constructor name ts))) = Pending"
    by (simp add: run_begin_Done constructor_def)
  from until_exit_finished [OF this] show ?thesis
    by (simp add: on_exit_Done settle_def)
qed

theorem on_exit_settles_once_witness:
  "on_exit (Some 1) (constructor ''ws'' [(''A'', 10::nat)])
     = Done \<lparr>tests = [(''A'', 10)], workspaceFolder_name = ''ws'',
          testRun = [AppendOutput (''Test host exited with code 1'' @ CRLF) None None],
          stdin = [JObj [(''run'', JArr [JStr ''A''])]],
          stdin_ended = False,
          finished = Rejected (Error ''Test host exited with code 1'')\<rparr>
   \<and> finished (state_of (on_exit None (constructor ''ws'' [(''A'', 10::nat)])))
     = Rejected (Error ''Test host exited with code null'')
   \<and> finished (state_of (on_exit (Some 0) (constructor ''ws'' [(''A'', 10::nat)]))) = Resolved
   \<and> finished (state_of (on_exit (Some 0)
        (state_of (on_exit (Some 1) (constructor ''ws'' [(''A'', 10::nat)])))))
     = Rejected (Error ''Test host exited with code 1'')"
proof -
  let ?r = "constructor ''ws'' [(''A'', 10::nat)]"
  have one: "show_code (Some 1) = ''1''" and null: "show_code None = ''null''"
    by code_simp+
  have p: "finished ?r = Pending"
    by (simp add: constructor_def)
  have "on_exit (Some 1) ?r =
          Done ((call (AppendOutput (''Test host exited with code '' @ show_code (Some 1) @ CRLF)
                   None None) ?r)
            \<lparr>finished := (if Some (1::int) = Some 0 then Resolved
                else Rejected (Error (''Test host exited with code '' @ show_code (Some 1))))\<rparr>)"
    using on_exit_settles_once [of ?r "Some 1" S0 "[]" "''ws''" "[]"] p by blast
  then have first: "on_exit (Some 1) ?r
     = Done \<lparr>tests = [(''A'', 10)], workspaceFolder_name = ''ws'',
          testRun = [AppendOutput (''Test host exited with code 1'' @ CRLF) None None],
          stdin = [JObj [(''run'', JArr [JStr ''A''])]],
          stdin_ended = False,
          finished = Rejected (Error ''Test host exited with code 1'')\<rparr>"
    by (simp add: one constructor_def call_def)
  have "on_exit None ?r =
          Done ((call (AppendOutput (''Test host exited with code '' @ show_code None @ CRLF)
                   None None) ?r)
            \<lparr>finished := (if (None :: int option) = Some 0 then Resolved
                else Rejected (Error (''Test host exited with code '' @ show_code None)))\<rparr>)"
    using on_exit_settles_once [of ?r None S0 "[]" "''ws''" "[]"] p by blast
  then have second: "finished (state_of (on_exit None ?r))
     = Rejected (Error ''Test host exited with code null'')"
    by (simp add: null)
  have "on_exit (Some 0) ?r =
          Done ((call (AppendOutput (''Test host exited with code '' @ show_code (Some 0) @ CRLF)
                   None None) ?r)
            \<lparr>finished := (if Some (0::int) = Some 0 then Resolved
                else Rejected (Error (''Test host exited with code '' @ show_code (Some 0))))\<rparr>)"
    using on_exit_settles_once [of ?r "Some 0" S0 "[]" "''ws''" "[]"] p by blast
  then have third: "finished (state_of (on_exit (Some 0) ?r)) = Resolved"
    by simp
  have q: "finished (state_of (on_exit (Some 1) ?r)) \<noteq> Pending"
    by (simp add: first)
  have "finished (state_of (on_exit (Some 0) (state_of (on_exit (Some 1) ?r))))
          = finished (state_of (on_exit (Some 1) ?r))"
    using on_exit_settles_once [of "state_of (on_exit (Some 1) ?r)" "Some 0" S0 "[]" "''ws''" "[]"] q
    by blast
  then have fourth: "finished (state_of (on_exit (Some 0) (state_of (on_exit (Some 1) ?r))))
     = Rejected (Error ''Test host exited with code 1'')"
    by (simp add: first)
  from first second third fourth show ?thesis by blast
qed

section \<open>The epilogue of \<open>run\<close>\<close>

text \<open>
  C3. Once the promise is settled, resolved or rejected, \<open>run()\<close> resumes and
  returns: it does not raise. It has then called \<open>skipped\<close> for every identity still
  in \<open>tests\<close>, in their order, and \<open>end()\<close> after that, and \<open>tests\<close> is as it was.
  Every session ends so, whatever the events and the exit code.
\<close>

theorem run_never_raises:
  "(finished r \<noteq> Pending \<longrightarrow> run_resume r = Some (Done (call End (skipRemainingTests r))))
   \<and> session S name ts evs code =
       Some (Done (call End (skipRemainingTests
         (until_exit S evs code (state_of (run_begin (constructor name ts)))))))
   \<and> testRun (call End (skipRemainingTests r)) =
       testRun r @ map (\<lambda>identity. Skipped (map_of (tests r) identity)) (map fst (tests r)) @ [End]
   \<and> tests (call End (skipRemainingTests r)) = tests r"
  by (simp add: run_resume_settled session_Done skipRemainingTests_def)

theorem run_never_raises_witness:
  "run_resume \<lparr>tests = [(''B'', 20::nat)], workspaceFolder_name = ''ws'',
       testRun = [Passed (Some 10) (JNum 12)], stdin = [], stdin_ended = False,
       finished = Rejected (Error ''Test host exited with code 1'')\<rparr>
   = Some (Done \<lparr>tests = [(''B'', 20)], workspaceFolder_name = ''ws'',
       testRun = [Passed (Some 10) (JNum 12), Skipped (Some 20), End],
       stdin = [], stdin_ended = False,
       finished = Rejected (Error ''Test host exited with code 1'')\<rparr>)
   \<and> run_resume \<lparr>tests = [(''B'', 20::nat)], workspaceFolder_name = ''ws'',
       testRun = [Passed (Some 10) (JNum 12)], stdin = [], stdin_ended = False,
       finished = Resolved\<rparr>
   = Some (Done \<lparr>tests = [(''B'', 20)], workspaceFolder_name = ''ws'',
       testRun = [Passed (Some 10) (JNum 12), Skipped (Some 20), End],
       stdin = [], stdin_ended = False, finished = Resolved\<rparr>)"
proof -
  let ?rejected = "\<lparr>tests = [(''B'', 20::nat)], workspaceFolder_name = ''ws'',
       testRun = [Passed (Some 10) (JNum 12)], stdin = [], stdin_ended = False,
       finished = Rejected (Error ''Test host exited with code 1'')\<rparr>"
  let ?resolved = "\<lparr>tests = [(''B'', 20::nat)], workspaceFolder_name = ''ws'',
       testRun = [Passed (Some 10) (JNum 12)], stdin = [], stdin_ended = False,
       finished = Resolved\<rparr>"
  have "finished ?rejected \<noteq> Pending" and "finished ?resolved \<noteq> Pending"
    by simp_all
  then have "run_resume ?rejected = Some (Done (call End (skipRemainingTests ?rejected)))"
    and "run_resume ?resolved = Some (Done (call End (skipRemainingTests ?resolved)))"
    using run_never_raises [of ?rejected S0 "''ws''" "[]" "[]" None]
          run_never_raises [of ?resolved S0 "''ws''" "[]" "[]" None]
    by blast+
  then show ?thesis
    by (simp add: skipRemainingTests_def call_def)
qed

section \<open>A removed identity is not skipped\<close>

text \<open>
  C4. An identity that a terminal event has removed, the event being one that reached
  \<open>onData\<close>, is not among the identities of \<open>tests\<close> when the child exits, whatever
  events came after the removal; and the epilogue calls \<open>skipped\<close> for the identities
  of \<open>tests\<close> at that moment and for no other.
\<close>

theorem removed_never_skipped:
  assumes "k \<in> set (terminal_keys (handled S True evs r))"
  shows "k \<notin> set (map fst (tests (until_exit S evs code r)))
       \<and> skipped (testRun (skipRemainingTests (until_exit S evs code r))) =
           skipped (testRun r) @
             map (\<lambda>identity. map_of (tests (until_exit S evs code r)) identity)
               (map fst (tests (until_exit S evs code r)))"
proof -
  have "k \<notin> set (map fst (tests (until_exit S evs code r)))"
    using assms by (auto simp: until_exit_tests)
  moreover have "skipped (testRun (skipRemainingTests (until_exit S evs code r))) =
           skipped (testRun r) @
             map (\<lambda>identity. map_of (tests (until_exit S evs code r)) identity)
               (map fst (tests (until_exit S evs code r)))"
    by (simp add: skipRemainingTests_def skipped_append until_exit_skipped
          skipped_map_Skipped comp_def)
  ultimately show ?thesis by simp
qed

text \<open>A is removed by an errored event and named again after that; at the exit B alone
  is pending, and B alone is skipped.\<close>

theorem removed_never_skipped_witness:
  "''A'' \<in> set (terminal_keys (handled S0 True
      [Stdout (JObj [(''errored'', JStr ''A''), (''duration'', JNum 3)]),
       Stdout (JObj [(''started'', JStr ''A'')])]
      (constructor ''ws'' [(''A'', 10::nat), (''B'', 20)])))
   \<and> map fst (tests (until_exit S0
        [Stdout (JObj [(''errored'', JStr ''A''), (''duration'', JNum 3)]),
         Stdout (JObj [(''started'', JStr ''A'')])] None
        (constructor ''ws'' [(''A'', 10::nat), (''B'', 20)]))) = [''B'']
   \<and> skipped (testRun (skipRemainingTests (until_exit S0
        [Stdout (JObj [(''errored'', JStr ''A''), (''duration'', JNum 3)]),
         Stdout (JObj [(''started'', JStr ''A'')])] None
        (constructor ''ws'' [(''A'', 10::nat), (''B'', 20)])))) = [Some 20]"
proof -
  let ?evs = "[Stdout (JObj [(''errored'', JStr ''A''), (''duration'', JNum 3)]),
               Stdout (JObj [(''started'', JStr ''A'')])]"
  let ?r = "constructor ''ws'' [(''A'', 10::nat), (''B'', 20)]"
  have h: "handled S0 True ?evs ?r = ?evs"
    by code_simp
  have k: "terminal_keys (handled S0 True ?evs ?r) = [''A'']"
    unfolding h
    by (simp add: terminal_keys_def terminal_key_def terminal_def verdict_of_def
          first_tag_def tags_def map_filter_simps)
  then have m: "''A'' \<in> set (terminal_keys (handled S0 True ?evs ?r))" by simp
  have t: "tests (until_exit S0 ?evs None ?r) = [(''B'', 20)]"
    unfolding until_exit_tests k by (simp add: constructor_def)
  have c: "skipped (testRun ?r) = []"
    by (simp add: constructor_def)
  from removed_never_skipped [OF m, of None]
  have "skipped (testRun (skipRemainingTests (until_exit S0 ?evs None ?r))) =
           skipped (testRun ?r) @
             map (\<lambda>identity. map_of (tests (until_exit S0 ?evs None ?r)) identity)
               (map fst (tests (until_exit S0 ?evs None ?r)))"
    by blast
  then have s: "skipped (testRun (skipRemainingTests (until_exit S0 ?evs None ?r))) = [Some 20]"
    by (simp add: t c)
  from m t s show ?thesis by simp
qed

section \<open>Coverage\<close>

text \<open>
  C5. For a coverage event whose \<open>counts\<close> is an array, \<open>addCoverage\<close> returns and
  adds one coverage record; its statement entries carry, in order, exactly the counts of
  the array that are not \<open>null\<close>: one entry for each such slot, zero counts included, and
  none for a \<open>null\<close> slot.
\<close>

theorem addCoverage_one_entry_per_count:
  assumes "get data ''coverage'' = Inr path"
    and "get data ''counts'' = Inr (JArr cs)"
  shows "\<exists>ds. addCoverage S data r =
                Done (call (AddCoverage (FileCoverage (Uri_file path) ds)) r)
            \<and> map executed ds = filter (\<lambda>c. \<not> nullish c) cs
            \<and> length ds = length (filter (\<lambda>c. \<not> nullish c) cs)"
proof -
  let ?ds = "map (\<lambda>i. StatementCoverage (cs ! i) (Position (Num (int i - 1)) (JNum 0)))
               (filter (\<lambda>i. \<not> nullish (cs ! i)) [0..<length cs])"
  have m: "map executed ?ds = filter (\<lambda>c. \<not> nullish c) cs"
    using filter_nth_upt [of cs "\<lambda>c. \<not> nullish c"] by (simp add: comp_def)
  have "length ?ds = length (map executed ?ds)"
    by (simp only: length_map)
  then have l: "length ?ds = length (filter (\<lambda>c. \<not> nullish c) cs)"
    by (simp only: m)
  show ?thesis
  proof (intro exI conjI)
    show "addCoverage S data r = Done (call (AddCoverage (FileCoverage (Uri_file path) ?ds)) r)"
      by (rule addCoverage_array [OF assms])
    show "map executed ?ds = filter (\<lambda>c. \<not> nullish c) cs"
      by (rule m)
    show "length ?ds = length (filter (\<lambda>c. \<not> nullish c) cs)"
      by (rule l)
  qed
qed

theorem addCoverage_one_entry_per_count_witness:
  "\<exists>ds. addCoverage S0
           (JObj [(''coverage'', JStr ''lib/a.rb''),
                  (''counts'', JArr [JNull, JNum 3, JNum 0, JNull, JNum 5])])
           (constructor ''ws'' ([] :: (string \<times> nat) list))
         = Done (call (AddCoverage (FileCoverage (Uri_file (JStr ''lib/a.rb'')) ds))
             (constructor ''ws'' []))
       \<and> map executed ds = [JNum 3, JNum 0, JNum 5]
       \<and> length ds = 3"
  using addCoverage_one_entry_per_count
          [of "JObj [(''coverage'', JStr ''lib/a.rb''),
                     (''counts'', JArr [JNull, JNum 3, JNum 0, JNull, JNum 5])]"
              "JStr ''lib/a.rb''" "[JNull, JNum 3, JNum 0, JNull, JNum 5]" S0
              "constructor ''ws'' ([] :: (string \<times> nat) list)"]
  by (simp add: numeral_3_eq_3)

text \<open>
  C6. For a coverage event whose \<open>counts\<close> is an array, the entry built from the count
  at index \<open>i\<close> has the position of line \<open>i - 1\<close> and column 0: the index is used as
  it is, and a count at index 0 gets line \<open>-1\<close>.
\<close>

theorem addCoverage_line_is_index_minus_one:
  assumes "get data ''coverage'' = Inr path"
    and "get data ''counts'' = Inr (JArr cs)"
  shows "addCoverage S data r =
           Done (call (AddCoverage (FileCoverage (Uri_file path)
             (map (\<lambda>i. StatementCoverage (cs ! i) (Position (Num (int i - 1)) (JNum 0)))
                  (filter (\<lambda>i. \<not> nullish (cs ! i)) [0..<length cs])))) r)"
  using assms by (rule addCoverage_array)

theorem addCoverage_line_is_index_minus_one_witness:
  "addCoverage S0
     (JObj [(''coverage'', JStr ''lib/a.rb''), (''counts'', JArr [JNum 5, JNull, JNum 7])])
     (constructor ''ws'' ([] :: (string \<times> nat) list))
   = Done (call (AddCoverage (FileCoverage (Uri_file (JStr ''lib/a.rb''))
        [StatementCoverage (JNum 5) (Position (Num (- 1)) (JNum 0)),
         StatementCoverage (JNum 7) (Position (Num 1) (JNum 0))]))
      (constructor ''ws'' []))"
proof -
  have "[0..<length [JNum 5, JNull, JNum 7]] = [0, 1, 2]"
    by code_simp
  with addCoverage_line_is_index_minus_one
         [of "JObj [(''coverage'', JStr ''lib/a.rb''), (''counts'', JArr [JNum 5, JNull, JNum 7])]"
             "JStr ''lib/a.rb''" "[JNum 5, JNull, JNum 7]" S0
             "constructor ''ws'' ([] :: (string \<times> nat) list)"]
  show ?thesis by simp
qed

section \<open>Messages and locations\<close>

text \<open>
  C7, as the code has it. \<open>messageFor\<close> tests \<open>data.actual && data.expected\<close>: the
  message is built by \<open>TestMessage.diff\<close> from the body, \<open>data.actual\<close> and
  \<open>data.expected\<close> exactly when both values are truthy, and by the plain constructor
  from the body otherwise, which covers an entry that carries only \<open>text\<close>. The body
  is \<open>data.text\<close> when that is truthy and \<open>undefined\<close> otherwise. In both cases the
  location of the message is what \<open>locationFor\<close> yields for the entry.
\<close>

theorem messageFor_diff_iff_both_truthy:
  assumes "get data ''text'' = Inr t"
    and "get data ''actual'' = Inr a"
    and "get data ''expected'' = Inr e"
  shows "messageFor S data =
           and_then (locationFor S data) (\<lambda>loc.
             Inr \<lparr>message = (if truthy t then t else JUndefined),
                  diff = (if truthy a \<and> truthy e then Some (a, e) else None),
                  location = loc\<rparr>)"
  using assms by (simp add: messageFor_def messageBodyFor_def)

theorem messageFor_diff_iff_both_truthy_witness:
  "messageFor S0
     (JObj [(''text'', JStr ''not equal''), (''actual'', JStr ''1''), (''expected'', JStr ''2'')])
   = Inr \<lparr>message = JStr ''not equal'', diff = Some (JStr ''1'', JStr ''2''), location = None\<rparr>
   \<and> messageFor S0 (JObj [(''text'', JStr ''boom'')])
   = Inr \<lparr>message = JStr ''boom'', diff = None, location = None\<rparr>"
  using messageFor_diff_iff_both_truthy
          [of "JObj [(''text'', JStr ''not equal''), (''actual'', JStr ''1''), (''expected'', JStr ''2'')]"
              "JStr ''not equal''" "JStr ''1''" "JStr ''2''" S0]
        messageFor_diff_iff_both_truthy
          [of "JObj [(''text'', JStr ''boom'')]" "JStr ''boom''" JUndefined JUndefined S0]
  by (simp add: locationFor_def)

text \<open>
  C7 as the claim states it fails: an entry that carries both \<open>actual\<close> and
  \<open>expected\<close>, the actual value being the empty string, yields a plain message.
\<close>

theorem messageFor_empty_actual_plain:
  "messageFor S0
     (JObj [(''text'', JStr ''not equal''), (''actual'', JStr []), (''expected'', JStr ''2'')])
   = Inr \<lparr>message = JStr ''not equal'', diff = None, location = None\<rparr>"
  by (simp add: messageFor_def messageBodyFor_def locationFor_def)

text \<open>
  C8. For an entry whose \<open>location\<close> is present (truthy) and whose \<open>line\<close> is a
  number \<open>n\<close>, the position has line \<open>n - 1\<close>; its column is the wire column when
  that is a number, and 0 when the location has no column. An entry with no
  \<open>location\<close> field (or a falsy one) yields no location.
\<close>

theorem locationFor_line_minus_one_column_default:
  assumes "get data ''location'' = Inr loc"
  shows "(\<not> truthy loc \<longrightarrow> locationFor S data = Inr None)
       \<and> (truthy loc \<and> get loc ''path'' = Inr path \<and> get loc ''line'' = Inr (JNum n)
            \<and> get loc ''column'' = Inr JUndefined \<longrightarrow>
            locationFor S data =
              Inr (Some (Location (Uri_file path) (Position (Num (n - 1)) (JNum 0)))))
       \<and> (truthy loc \<and> get loc ''path'' = Inr path \<and> get loc ''line'' = Inr (JNum n)
            \<and> get loc ''column'' = Inr (JNum k) \<longrightarrow>
            locationFor S data =
              Inr (Some (Location (Uri_file path) (Position (Num (n - 1)) (JNum k)))))"
  using assms by (simp add: locationFor_def)

theorem locationFor_line_minus_one_column_default_witness:
  "locationFor S0
     (JObj [(''text'', JStr ''boom''),
            (''location'', JObj [(''path'', JStr ''test/a.rb''), (''line'', JNum 10)])])
   = Inr (Some (Location (Uri_file (JStr ''test/a.rb'')) (Position (Num 9) (JNum 0))))
   \<and> locationFor S0
     (JObj [(''text'', JStr ''boom''),
            (''location'', JObj [(''path'', JStr ''test/a.rb''), (''line'', JNum 10), (''column'', JNum 4)])])
   = Inr (Some (Location (Uri_file (JStr ''test/a.rb'')) (Position (Num 9) (JNum 4))))
   \<and> locationFor S0 (JObj [(''text'', JStr ''boom'')]) = Inr None"
  using locationFor_line_minus_one_column_default
          [of "JObj [(''text'', JStr ''boom''),
                     (''location'', JObj [(''path'', JStr ''test/a.rb''), (''line'', JNum 10)])]"
              "JObj [(''path'', JStr ''test/a.rb''), (''line'', JNum 10)]"
              S0 "JStr ''test/a.rb''" 10 0]
        locationFor_line_minus_one_column_default
          [of "JObj [(''text'', JStr ''boom''),
                     (''location'', JObj [(''path'', JStr ''test/a.rb''), (''line'', JNum 10), (''column'', JNum 4)])]"
              "JObj [(''path'', JStr ''test/a.rb''), (''line'', JNum 10), (''column'', JNum 4)]"
              S0 "JStr ''test/a.rb''" 10 4]
        locationFor_line_minus_one_column_default
          [of "JObj [(''text'', JStr ''boom'')]" JUndefined S0 JUndefined 0 0]
  by simp

section \<open>A second terminal event\<close>




section \<open>The dispatch of events\<close>

text \<open>
  C10. For a decoded record (any value but \<open>undefined\<close> and \<open>null\<close>), \<open>onData\<close>
  does what the transition of one tag does: the first of started, inform, passed,
  failed, errored, finished, coverage whose value is truthy, whatever the values of the
  tags after it. When no tag has a truthy value it returns and leaves the runner as it
  was.
\<close>

theorem onData_acts_on_first_truthy_tag:
  assumes "\<not> nullish data"
  shows "onData S data r =
           (case first_tag data of None \<Rightarrow> Done r | Some tag \<Rightarrow> transition S tag data r)"
  using assms by (rule onData_first_tag)

theorem onData_acts_on_first_truthy_tag_witness:
  "onData S0 (JObj [(''passed'', JStr ''A''), (''started'', JStr ''A''), (''duration'', JNum 12)])
     (constructor ''ws'' [(''A'', 10::nat)])
   = Done (call (Started (Some 10)) (constructor ''ws'' [(''A'', 10)]))
   \<and> onData S0 (JObj [(''passed'', JStr []), (''duration'', JNum 12)])
     (constructor ''ws'' [(''A'', 10::nat)])
   = Done (constructor ''ws'' [(''A'', 10)])
   \<and> onData S0 (JObj []) (constructor ''ws'' [(''A'', 10::nat)])
   = Done (constructor ''ws'' [(''A'', 10)])"
  using onData_acts_on_first_truthy_tag
          [of "JObj [(''passed'', JStr ''A''), (''started'', JStr ''A''), (''duration'', JNum 12)]"
              S0 "constructor ''ws'' [(''A'', 10::nat)]"]
        onData_acts_on_first_truthy_tag
          [of "JObj [(''passed'', JStr []), (''duration'', JNum 12)]"
              S0 "constructor ''ws'' [(''A'', 10::nat)]"]
        onData_acts_on_first_truthy_tag
          [of "JObj []" S0 "constructor ''ws'' [(''A'', 10::nat)]"]
  by (simp add: first_tag_def tags_def transition_def lookup_def constructor_def)

end
